theory Spec2Isabelle
  imports Complex_Main "HOL-Library.AList"
begin

section \<open>Data model of \<^verbatim>\<open>pint/unit.py\<close>\<close>

text \<open>
  The module defines the class \<^verbatim>\<open>Unit\<close>. Its collaborators (the registry, the
  quantity class, \<^verbatim>\<open>UnitsContainer\<close>, \<^verbatim>\<open>SharedRegistryObject\<close>, the helpers of
  \<^verbatim>\<open>pint.compat\<close> and \<^verbatim>\<open>pint.formatting\<close>) live in other modules. What the methods of
  \<^verbatim>\<open>Unit\<close> call in them is either a field of the records \<open>registry\<close> and \<open>world\<close>
  below (an arbitrary function, so that every theorem holds for every behaviour of the
  collaborator) or a definition marked as modelled from the specification.

  Exceptions are values: a method returns \<open>error + 'a\<close>, \<open>Inl\<close> carrying the exception.
\<close>

datatype error =
    TypeError string
  | ValueError string
  | AttributeError string
  | DimensionalityError string
  | Raised string

text \<open>
  A \<^verbatim>\<open>UnitsContainer\<close> is a dictionary from unit names to exponents. It is an association
  list in insertion order, since \<^verbatim>\<open>format_babel\<close> iterates over its items. Exponents and
  plain numbers are rationals.
\<close>

type_synonym container = "(string \<times> rat) list"

text \<open>
  An instance of \<^verbatim>\<open>Unit\<close>. \<open>u_registry\<close> is the identity of the registry whose
  \<^verbatim>\<open>build_unit_class\<close> produced the concrete class of the instance (the class attribute
  \<^verbatim>\<open>_REGISTRY\<close>); a registry builds one such class, so two units have the same concrete
  class exactly when this field agrees. \<open>u_dimensionality\<close> is the attribute
  \<^verbatim>\<open>_dimensionality\<close>, \<open>None\<close> while the attribute does not exist.
\<close>

record Unit =
  u_registry :: nat
  u_units :: container
  u_used :: bool
  u_dimensionality :: "container option"

text \<open>
  The Python values a method of \<^verbatim>\<open>Unit\<close> can receive. \<open>PQuantity r m c\<close> is a quantity of
  registry \<open>r\<close> with magnitude \<open>m\<close> and units \<open>c\<close>. \<open>PForeign t h\<close> is an object of any other
  type, \<open>t\<close> the name of its type and \<open>h\<close> whether it has the attribute
  \<^verbatim>\<open>__array_ufunc__\<close>.
\<close>

datatype pyobj =
    PNone
  | PNum rat
  | PStr string
  | PTuple "pyobj list"
  | PContainer container
  | PUnit Unit
  | PQuantity nat pyobj container
  | PForeign string bool
  | PNotImplemented

record registry =
  parse_units :: "string \<Rightarrow> error + container"
  get_dimensionality :: "container \<Rightarrow> error + container"
  active_ctx :: "string list"
  fmt_locale :: "string option"
  get_symbol :: "string \<Rightarrow> error + string"
  root_factor :: "container \<Rightarrow> rat"

record world =
  registries :: "nat \<Rightarrow> registry"
  quantity_to :: "pyobj \<Rightarrow> pyobj \<Rightarrow> string list \<Rightarrow> (string \<times> pyobj) list \<Rightarrow> error + pyobj"
  quantity_mul :: "pyobj \<Rightarrow> pyobj \<Rightarrow> error + pyobj"
  quantity_truediv :: "pyobj \<Rightarrow> pyobj \<Rightarrow> error + pyobj"
  quantity_eq :: "pyobj \<Rightarrow> pyobj \<Rightarrow> error + bool"
  quantity_dimensionality :: "pyobj \<Rightarrow> error + container"
  container_eq :: "container \<Rightarrow> pyobj \<Rightarrow> error + bool"
  one_over :: "pyobj \<Rightarrow> error + pyobj"
  left_mul :: "pyobj \<Rightarrow> pyobj \<Rightarrow> error + pyobj"
  is_upcast_type :: "string \<Rightarrow> bool"
  ufunc_call :: "string \<Rightarrow> pyobj list \<Rightarrow> (string \<times> pyobj) list \<Rightarrow> error + pyobj"
  extract_custom_flags :: "string \<Rightarrow> string"
  babel_parse :: "string \<Rightarrow> error + string"
  container_format_babel ::
    "container \<Rightarrow> string \<Rightarrow> string \<Rightarrow> (string \<times> pyobj) list \<Rightarrow> error + string"
  py_str :: "pyobj \<Rightarrow> string"

text \<open>The registry bound to the class of a unit: \<^verbatim>\<open>self._REGISTRY\<close>.\<close>

definition reg_of :: "world \<Rightarrow> Unit \<Rightarrow> registry" where
  "reg_of W self = registries W (u_registry self)"

text \<open>Sequencing of calls that may raise.\<close>

definition bind_res :: "error + 'a \<Rightarrow> ('a \<Rightarrow> error + 'b) \<Rightarrow> error + 'b" where
  "bind_res r f = (case r of Inl e \<Rightarrow> Inl e | Inr x \<Rightarrow> f x)"

section \<open>The exponent container\<close>

text \<open>
  Modelled from the spec: \<^verbatim>\<open>UnitsContainer\<close> (\<^verbatim>\<open>pint/util.py\<close>) is not part of the
  sources at hand. The specification describes it as an immutable mapping from unit name
  to a numeric exponent, supporting multiplication (exponent addition), division
  (exponent subtraction), exponentiation (exponent scaling) and equality, with the
  pruning of zero exponents as the container's responsibility. A name that is absent
  has exponent \<open>0\<close>.
\<close>

definition uc_get :: "container \<Rightarrow> string \<Rightarrow> rat" where
  "uc_get c k = (case map_of c k of None \<Rightarrow> 0 | Some v \<Rightarrow> v)"

definition uc_add_exponent :: "string \<times> rat \<Rightarrow> container \<Rightarrow> container" where
  "uc_add_exponent kv c =
     (let x = uc_get c (fst kv) + snd kv
      in if x = 0 then AList.delete (fst kv) c else AList.update (fst kv) x c)"

definition uc_mul :: "container \<Rightarrow> container \<Rightarrow> container" where
  "uc_mul c d = fold uc_add_exponent d c"

definition uc_div :: "container \<Rightarrow> container \<Rightarrow> container" where
  "uc_div c d = fold (\<lambda>kv. uc_add_exponent (fst kv, - snd kv)) d c"

definition uc_pow :: "container \<Rightarrow> rat \<Rightarrow> container" where
  "uc_pow c n = map (\<lambda>kv. (fst kv, snd kv * n)) c"

definition uc_eq :: "container \<Rightarrow> container \<Rightarrow> bool" where
  "uc_eq c d = (set c = set d)"

section \<open>Construction and the quantity-like test\<close>

text \<open>The name of the type of a value, as an error message shows it.\<close>

fun type_name :: "pyobj \<Rightarrow> string" where
  "type_name PNone = ''NoneType''"
| "type_name (PNum n) = ''Number''"
| "type_name (PStr s) = ''str''"
| "type_name (PTuple xs) = ''tuple''"
| "type_name (PContainer c) = ''UnitsContainer''"
| "type_name (PUnit u) = ''Unit''"
| "type_name (PQuantity r m c) = ''Quantity''"
| "type_name (PForeign t h) = t"
| "type_name PNotImplemented = ''NotImplementedType''"

text \<open>
  \<^verbatim>\<open>Unit.__init__\<close> of the class bound to registry \<open>r\<close>. The new instance has
  \<^verbatim>\<open>__used = False\<close> and no cached dimensionality. Objects of the class
  \<^verbatim>\<open>UnitDefinition\<close>, which the constructor stores as they are, are not among the values
  of the model.
\<close>

definition new_unit :: "nat \<Rightarrow> container \<Rightarrow> Unit" where
  "new_unit r c = \<lparr>u_registry = r, u_units = c, u_used = False, u_dimensionality = None\<rparr>"

definition unit_init :: "world \<Rightarrow> nat \<Rightarrow> pyobj \<Rightarrow> error + Unit" where
  "unit_init W r units =
     (case units of
        PContainer c \<Rightarrow> Inr (new_unit r c)
      | PStr s \<Rightarrow> bind_res (parse_units (registries W r) s) (\<lambda>c. Inr (new_unit r c))
      | PUnit other \<Rightarrow> Inr (new_unit r (u_units other))
      | _ \<Rightarrow> Inl (TypeError (''units must be of type str, Unit or UnitsContainer; not ''
                              @ type_name units @ ''.'')))"

text \<open>
  Modelled from the spec: \<^verbatim>\<open>SharedRegistryObject._check\<close> (\<^verbatim>\<open>pint/util.py\<close>) is not part
  of the sources at hand. The specification calls the operands it accepts
  ``quantity-like'': a unit or a quantity bound to the registry of \<open>self\<close>. Every value
  that is neither a unit nor a quantity is not quantity-like. The specification is silent
  on a unit or quantity bound to another registry; the model lets the test raise there,
  and no theorem below depends on that case.
\<close>

definition check :: "Unit \<Rightarrow> pyobj \<Rightarrow> error + bool" where
  "check self other =
     (case other of
        PUnit u \<Rightarrow>
          if u_registry u = u_registry self then Inr True
          else Inl (ValueError ''Cannot operate with Unit and Unit of different registries.'')
      | PQuantity r m c \<Rightarrow>
          if r = u_registry self then Inr True
          else Inl (ValueError ''Cannot operate with Unit and Quantity of different registries.'')
      | _ \<Rightarrow> Inr False)"

text \<open>\<^verbatim>\<open>isinstance(other, self.__class__)\<close>.\<close>

definition isinstance_class_of :: "Unit \<Rightarrow> pyobj \<Rightarrow> bool" where
  "isinstance_class_of self other =
     (case other of PUnit u \<Rightarrow> u_registry u = u_registry self | _ \<Rightarrow> False)"

text \<open>\<^verbatim>\<open>self._REGISTRY.Quantity(m, self._units)\<close>.\<close>

definition quantity_of :: "Unit \<Rightarrow> pyobj \<Rightarrow> pyobj" where
  "quantity_of self m = PQuantity (u_registry self) m (u_units self)"

section \<open>Dimensionality\<close>

text \<open>
  The property \<^verbatim>\<open>dimensionality\<close>, read while the bound registry is in state \<open>R\<close>. The
  result is the value or the exception, the instance after the read, and the number of
  calls of \<^verbatim>\<open>_get_dimensionality\<close> the read made.
\<close>

definition dimensionality :: "registry \<Rightarrow> Unit \<Rightarrow> (error + container) \<times> Unit \<times> nat" where
  "dimensionality R self =
     (case u_dimensionality self of
        Some d \<Rightarrow> (Inr d, self, 0)
      | None \<Rightarrow>
          (case get_dimensionality R (u_units self) of
             Inl e \<Rightarrow> (Inl e, self, 1)
           | Inr d \<Rightarrow> (Inr d, self\<lparr>u_dimensionality := Some d\<rparr>, 1)))"

text \<open>The property \<^verbatim>\<open>dimensionless\<close>: \<^verbatim>\<open>not bool(self.dimensionality)\<close>.\<close>

definition dimensionless :: "registry \<Rightarrow> Unit \<Rightarrow> (error + bool) \<times> Unit \<times> nat" where
  "dimensionless R self =
     (case dimensionality R self of
        (Inl e, self', n) \<Rightarrow> (Inl e, self', n)
      | (Inr d, self', n) \<Rightarrow> (Inr (d = []), self', n))"


section \<open>Arithmetic\<close>

text \<open>Whether a value is a number, and whether it equals the number \<open>1\<close>.\<close>

definition is_number :: "pyobj \<Rightarrow> bool" where
  "is_number x = (case x of PNum n \<Rightarrow> True | _ \<Rightarrow> False)"

text \<open>\<^verbatim>\<open>Unit.__mul__\<close>.\<close>

definition unit_mul :: "world \<Rightarrow> Unit \<Rightarrow> pyobj \<Rightarrow> error + pyobj" where
  "unit_mul W self other =
     bind_res (check self other) (\<lambda>ok.
       if ok then
         (case other of
            PUnit u \<Rightarrow>
              if isinstance_class_of self other
              then Inr (PUnit (new_unit (u_registry self) (uc_mul (u_units self) (u_units u))))
              else quantity_mul W (quantity_of self (PNum 1)) other
          | _ \<Rightarrow> quantity_mul W (quantity_of self (PNum 1)) other)
       else if other = PNum 1 then Inr (quantity_of self other)
       else quantity_mul W (quantity_of self (PNum 1)) other)"

text \<open>\<^verbatim>\<open>__rmul__ = __mul__\<close>: the reflected handler is the same function object.\<close>

definition unit_rmul :: "world \<Rightarrow> Unit \<Rightarrow> pyobj \<Rightarrow> error + pyobj" where
  "unit_rmul = unit_mul"

text \<open>
  The expression \<^verbatim>\<open>value * self\<close> with a unit on the right. Python asks the type of
  the left operand first. Numbers, strings, tuples and \<^verbatim>\<open>None\<close> have no multiplication
  with a unit, so the reflected handler of the unit answers. For the other values the
  left operand's own handler (a field of the world) answers, and the reflected handler of
  the unit only when that one declines.
\<close>

definition py_mul :: "world \<Rightarrow> pyobj \<Rightarrow> Unit \<Rightarrow> error + pyobj" where
  "py_mul W v self =
     (case v of
        PNone \<Rightarrow> unit_rmul W self v
      | PNum n \<Rightarrow> unit_rmul W self v
      | PStr s \<Rightarrow> unit_rmul W self v
      | PTuple xs \<Rightarrow> unit_rmul W self v
      | PUnit u \<Rightarrow> unit_mul W u (PUnit self)
      | _ \<Rightarrow>
          (case left_mul W v (PUnit self) of
             Inr PNotImplemented \<Rightarrow> unit_rmul W self v
           | r \<Rightarrow> r))"

text \<open>\<^verbatim>\<open>Unit.__truediv__\<close>. Here \<^verbatim>\<open>1 * self\<close> is \<open>py_mul W (PNum 1) self\<close>.\<close>

definition unit_truediv :: "world \<Rightarrow> Unit \<Rightarrow> pyobj \<Rightarrow> error + pyobj" where
  "unit_truediv W self other =
     bind_res (check self other) (\<lambda>ok.
       if ok then
         (case other of
            PUnit u \<Rightarrow>
              if isinstance_class_of self other
              then Inr (PUnit (new_unit (u_registry self) (uc_div (u_units self) (u_units u))))
              else bind_res (py_mul W (PNum 1) self) (\<lambda>qself. quantity_truediv W qself other)
          | _ \<Rightarrow> bind_res (py_mul W (PNum 1) self) (\<lambda>qself. quantity_truediv W qself other))
       else bind_res (one_over W other) (\<lambda>m. Inr (quantity_of self m)))"

text \<open>\<^verbatim>\<open>Unit.__pow__\<close>.\<close>

definition unit_pow :: "Unit \<Rightarrow> pyobj \<Rightarrow> error + Unit" where
  "unit_pow self other =
     (case other of
        PNum n \<Rightarrow> Inr (new_unit (u_registry self) (uc_pow (u_units self) n))
      | _ \<Rightarrow> Inl (TypeError (''Cannot power Unit by '' @ type_name other)))"

section \<open>Equality\<close>

text \<open>
  Modelled from the spec: \<^verbatim>\<open>Quantity.__eq__\<close> against a plain number
  (\<^verbatim>\<open>pint/quantity.py\<close>) is not part of the sources at hand. By the specification a
  quantity equals a number exactly when the quantity is dimensionless and its value,
  expressed without units, is that number. \<open>root_factor R c\<close> is the value of one unit
  of \<open>c\<close> so expressed. A number on the left of \<^verbatim>\<open>==\<close> defers to this method.
\<close>

definition quantity_eq_number :: "registry \<Rightarrow> rat \<Rightarrow> container \<Rightarrow> rat \<Rightarrow> error + bool" where
  "quantity_eq_number R m c n =
     bind_res (get_dimensionality R c) (\<lambda>d. Inr (d = [] \<and> m * root_factor R c = n))"

text \<open>\<^verbatim>\<open>Unit.__eq__\<close>.\<close>

definition unit_eq :: "world \<Rightarrow> Unit \<Rightarrow> pyobj \<Rightarrow> error + bool" where
  "unit_eq W self other =
     bind_res (check self other) (\<lambda>ok.
       if ok then
         (case other of
            PUnit u \<Rightarrow>
              if isinstance_class_of self other then Inr (uc_eq (u_units self) (u_units u))
              else quantity_eq W other (quantity_of self (PNum 1))
          | _ \<Rightarrow> quantity_eq W other (quantity_of self (PNum 1)))
       else
         (case other of
            PNum n \<Rightarrow> quantity_eq_number (reg_of W self) 1 (u_units self) n
          | _ \<Rightarrow> container_eq W (u_units self) other))"

text \<open>\<^verbatim>\<open>Unit.__ne__\<close>.\<close>

definition unit_ne :: "world \<Rightarrow> Unit \<Rightarrow> pyobj \<Rightarrow> error + bool" where
  "unit_ne W self other = bind_res (unit_eq W self other) (\<lambda>b. Inr (\<not> b))"

section \<open>Compatibility\<close>

text \<open>
  \<^verbatim>\<open>Unit.is_compatible_with\<close>. The whole of \<^verbatim>\<open>(1 * self).to(other, ...)\<close> stands inside
  the \<^verbatim>\<open>try\<close>. The reads of \<^verbatim>\<open>dimensionality\<close> take the value the property returns; a
  unit parsed from a string is a new instance, whose property asks the registry.
\<close>

definition is_compatible_with ::
  "world \<Rightarrow> Unit \<Rightarrow> pyobj \<Rightarrow> string list \<Rightarrow> (string \<times> pyobj) list \<Rightarrow> error + bool" where
  "is_compatible_with W self other contexts ctx_kwargs =
     (if contexts \<noteq> [] \<or> active_ctx (reg_of W self) \<noteq> [] then
        (case bind_res (py_mul W (PNum 1) self)
                (\<lambda>q. quantity_to W q other contexts ctx_kwargs) of
           Inr r \<Rightarrow> Inr True
         | Inl (DimensionalityError m) \<Rightarrow> Inr False
         | Inl e \<Rightarrow> Inl e)
      else
        (case other of
           PUnit u \<Rightarrow>
             bind_res (fst (dimensionality (reg_of W self) self)) (\<lambda>d1.
             bind_res (fst (dimensionality (reg_of W u) u)) (\<lambda>d2. Inr (uc_eq d1 d2)))
         | PQuantity r m c \<Rightarrow>
             bind_res (fst (dimensionality (reg_of W self) self)) (\<lambda>d1.
             bind_res (quantity_dimensionality W other) (\<lambda>d2. Inr (uc_eq d1 d2)))
         | PStr s \<Rightarrow>
             bind_res (fst (dimensionality (reg_of W self) self)) (\<lambda>d1.
             bind_res (parse_units (reg_of W self) s) (\<lambda>c.
             bind_res (fst (dimensionality (reg_of W self) (new_unit (u_registry self) c)))
               (\<lambda>d2. Inr (uc_eq d1 d2))))
         | _ \<Rightarrow> fst (dimensionless (reg_of W self) self)))"

section \<open>Interception of elementwise array operations\<close>






section \<open>Localized formatting\<close>

text \<open>
  The items of the container with every name replaced by its symbol, in iteration order;
  the first failing lookup raises.
\<close>

fun symbol_items :: "registry \<Rightarrow> container \<Rightarrow> error + container" where
  "symbol_items R [] = Inr []"
| "symbol_items R (kv # kvs) =
     bind_res (get_symbol R (fst kv)) (\<lambda>s.
     bind_res (symbol_items R kvs) (\<lambda>rest. Inr ((s, snd kv) # rest)))"

text \<open>\<^verbatim>\<open>dict(pairs)\<close>: a later pair replaces an earlier one with the same key.\<close>

definition dict_of :: "container \<Rightarrow> container" where
  "dict_of kvs = fold (\<lambda>kv. AList.update (fst kv) (snd kv)) kvs []"

definition default_format :: string where
  "default_format = []"

definition missing_locale :: error where
  "missing_locale = ValueError ''Provide a `locale` value to localize translation.''"

text \<open>
  \<^verbatim>\<open>Unit.format_babel\<close>. \<open>locale\<close> is \<open>None\<close> when the caller gave none; the renderer
  \<^verbatim>\<open>UnitsContainer.format_babel\<close> is a field of the world.
\<close>

definition format_babel ::
  "world \<Rightarrow> Unit \<Rightarrow> string \<Rightarrow> string option \<Rightarrow> (string \<times> pyobj) list \<Rightarrow> error + string" where
  "format_babel W self spec locale kwspec =
     (let R = reg_of W self;
          spec1 = (if spec \<noteq> [] then spec else extract_custom_flags W default_format);
          finish = (\<lambda>units spec2.
             (case (case locale of None \<Rightarrow> fmt_locale R | Some l \<Rightarrow> Some l) of
                None \<Rightarrow> Inl missing_locale
              | Some l \<Rightarrow>
                  bind_res (babel_parse W l) (\<lambda>loc.
                    container_format_babel W units spec2 loc kwspec)))
      in if CHR ''~'' \<in> set spec1 then
           bind_res (fst (dimensionless R self)) (\<lambda>dl.
             if dl then Inr []
             else bind_res (symbol_items R (u_units self)) (\<lambda>items.
                    finish (dict_of items) (filter (\<lambda>ch. ch \<noteq> CHR ''~'') spec1)))
         else finish (u_units self) spec1)"

section \<open>Conversion helpers\<close>

text \<open>
  \<^verbatim>\<open>"%s must be a Quantity" % value\<close>. The operator takes a tuple on its right as the
  list of arguments of the format: a tuple of one element fills the single \<^verbatim>\<open>%s\<close> with
  that element, any other tuple has too few or too many arguments and the operator raises
  \<^verbatim>\<open>TypeError\<close>. Any other value fills the \<^verbatim>\<open>%s\<close> itself.
\<close>

definition must_be_quantity_message :: "world \<Rightarrow> pyobj \<Rightarrow> error + string" where
  "must_be_quantity_message W v =
     (case v of
        PTuple xs \<Rightarrow>
          (case xs of
             [] \<Rightarrow> Inl (TypeError ''not enough arguments for format string'')
           | [x] \<Rightarrow> Inr (py_str W x @ '' must be a Quantity'')
           | _ \<Rightarrow> Inl (TypeError ''not all arguments converted during string formatting''))
      | _ \<Rightarrow> Inr (py_str W v @ '' must be a Quantity''))"

text \<open>
  \<^verbatim>\<open>self._REGISTRY.Quantity(1, value)\<close> unless the value is a quantity already. The
  function is applied to quantity-like values only, that is to units and quantities.
\<close>

definition unit_quantity_of_value :: "Unit \<Rightarrow> pyobj \<Rightarrow> pyobj" where
  "unit_quantity_of_value self v =
     (case v of
        PQuantity r m c \<Rightarrow> v
      | PUnit u \<Rightarrow> PQuantity (u_registry self) (PNum 1) (u_units u)
      | _ \<Rightarrow> v)"

text \<open>\<^verbatim>\<open>Unit.from_\<close>; the parameter \<open>name\<close> is not used by the body.\<close>

definition unit_from :: "world \<Rightarrow> Unit \<Rightarrow> pyobj \<Rightarrow> bool \<Rightarrow> string \<Rightarrow> error + pyobj" where
  "unit_from W self v strict name =
     bind_res (check self v) (\<lambda>ok.
       if ok then quantity_to W (unit_quantity_of_value self v) (PUnit self) [] []
       else if strict then
         (case must_be_quantity_message W v of
            Inl e \<Rightarrow> Inl e
          | Inr msg \<Rightarrow> Inl (ValueError msg))
       else py_mul W v self)"

text \<open>The attribute \<^verbatim>\<open>magnitude\<close> of a result.\<close>

definition magnitude_of :: "pyobj \<Rightarrow> error + pyobj" where
  "magnitude_of v =
     (case v of
        PQuantity r m c \<Rightarrow> Inr m
      | _ \<Rightarrow> Inl (AttributeError ''magnitude''))"

text \<open>\<^verbatim>\<open>Unit.m_from\<close>.\<close>

definition m_from :: "world \<Rightarrow> Unit \<Rightarrow> pyobj \<Rightarrow> bool \<Rightarrow> string \<Rightarrow> error + pyobj" where
  "m_from W self v strict name = bind_res (unit_from W self v strict name) magnitude_of"

section \<open>A small registry for the examples\<close>

text \<open>
  A registry that knows the units meter, foot, second and radian, and a world around it.
  The examples and counterexamples below are evaluated in it.
\<close>

definition example_dimension :: "string \<Rightarrow> error + container" where
  "example_dimension k =
     (if k = ''meter'' \<or> k = ''foot'' then Inr [(''[length]'', 1)]
      else if k = ''second'' then Inr [(''[time]'', 1)]
      else if k = ''radian'' then Inr []
      else Inl (Raised ''undefined unit''))"

fun example_get_dimensionality :: "container \<Rightarrow> error + container" where
  "example_get_dimensionality [] = Inr []"
| "example_get_dimensionality (kv # kvs) =
     bind_res (example_dimension (fst kv)) (\<lambda>d.
     bind_res (example_get_dimensionality kvs) (\<lambda>rest. Inr (uc_mul (uc_pow d (snd kv)) rest)))"

definition example_registry :: registry where
  "example_registry =
     \<lparr>parse_units = (\<lambda>s. if s = [] then Inr [] else Inr [(s, 1)]),
      get_dimensionality = example_get_dimensionality,
      active_ctx = [],
      fmt_locale = None,
      get_symbol = (\<lambda>k. Inr (take 1 k)),
      root_factor = (\<lambda>c. 1)\<rparr>"

definition example_to ::
  "pyobj \<Rightarrow> pyobj \<Rightarrow> string list \<Rightarrow> (string \<times> pyobj) list \<Rightarrow> error + pyobj" where
  "example_to q other contexts ctx_kwargs =
     (case q of
        PQuantity r m c \<Rightarrow>
          (case other of
             PUnit u \<Rightarrow>
               bind_res (example_get_dimensionality c) (\<lambda>d1.
               bind_res (example_get_dimensionality (u_units u)) (\<lambda>d2.
                 if uc_eq d1 d2 then Inr (PQuantity r m (u_units u))
                 else Inl (DimensionalityError ''incompatible'')))
           | _ \<Rightarrow> Inl (Raised ''unsupported''))
      | _ \<Rightarrow> Inl (Raised ''unsupported''))"

definition example_world :: world where
  "example_world =
     \<lparr>registries = (\<lambda>r. example_registry),
      quantity_to = example_to,
      quantity_mul = (\<lambda>q x. case q of
          PQuantity r m c \<Rightarrow>
            (case m of PNum a \<Rightarrow>
               (case x of PNum b \<Rightarrow> Inr (PQuantity r (PNum (a * b)) c)
                | _ \<Rightarrow> Inl (Raised ''unsupported''))
             | _ \<Rightarrow> Inl (Raised ''unsupported''))
        | _ \<Rightarrow> Inl (Raised ''unsupported'')),
      quantity_truediv = (\<lambda>q x. Inl (Raised ''unsupported'')),
      quantity_eq = (\<lambda>x q. Inr (x = q)),
      quantity_dimensionality = (\<lambda>q. case q of
          PQuantity r m c \<Rightarrow> example_get_dimensionality c
        | _ \<Rightarrow> Inl (Raised ''unsupported'')),
      container_eq = (\<lambda>c x. case x of PContainer d \<Rightarrow> Inr (uc_eq c d) | _ \<Rightarrow> Inr False),
      one_over = (\<lambda>x. case x of
          PNum n \<Rightarrow> if n = 0 then Inl (Raised ''ZeroDivisionError'') else Inr (PNum (1 / n))
        | _ \<Rightarrow> Inl (TypeError ''unsupported operand'')),
      left_mul = (\<lambda>v w. Inr PNotImplemented),
      is_upcast_type = (\<lambda>t. t = ''Series''),
      ufunc_call = (\<lambda>name args kwargs. Inr (PTuple (args @ map snd kwargs))),
      extract_custom_flags = (\<lambda>s. s),
      babel_parse = Inr,
      container_format_babel = (\<lambda>c spec loc kwspec. Inr (concat (map fst c))),
      py_str = type_name\<rparr>"


definition meter :: Unit where
  "meter = new_unit 0 [(''meter'', 1)]"

definition second :: Unit where
  "second = new_unit 0 [(''second'', 1)]"

definition radian :: Unit where
  "radian = new_unit 0 [(''radian'', 1)]"

text \<open>
  A unit whose name the example registry does not know and whose dimensionality is
  cached already, and a world whose registry has no symbol for any unit.
\<close>

definition cached_unit :: Unit where
  "cached_unit =
     \<lparr>u_registry = 0, u_units = [(''parsec'', 1)], u_used = False,
      u_dimensionality = Some [(''[length]'', 1)]\<rparr>"

definition symbolless_world :: world where
  "symbolless_world =
     example_world\<lparr>registries :=
       (\<lambda>r. example_registry\<lparr>get_symbol := (\<lambda>k. Inl (Raised ''no symbol''))\<rparr>)\<rparr>"


section \<open>Properties of the exponent container\<close>

lemma uc_get_add_exponent:
  "uc_get (uc_add_exponent (k', v) c) k = uc_get c k + (if k = k' then v else 0)"
  by (simp add: uc_get_def uc_add_exponent_def Let_def update_conv' delete_conv' split: option.splits)

lemma uc_get_absent: "k \<notin> fst ` set d \<Longrightarrow> uc_get d k = 0"
  by (auto simp: uc_get_def split: option.splits dest!: map_of_SomeD intro: rev_image_eqI)

lemma uc_get_Cons: "uc_get ((k', v) # d) k = (if k = k' then v else uc_get d k)"
  by (simp add: uc_get_def)

lemma uc_get_mul:
  "distinct (map fst d) \<Longrightarrow> uc_get (uc_mul c d) k = uc_get c k + uc_get d k"
  unfolding uc_mul_def
proof (induction d arbitrary: c)
  case Nil
  show ?case by (simp add: uc_get_def)
next
  case (Cons kv d)
  obtain k' v where kv: "kv = (k', v)" by (cases kv)
  from Cons.prems kv have abs: "k' \<notin> fst ` set d" and dist: "distinct (map fst d)" by auto
  have "uc_get (fold uc_add_exponent d (uc_add_exponent (k', v) c)) k
          = uc_get (uc_add_exponent (k', v) c) k + uc_get d k"
    by (rule Cons.IH [OF dist])
  then show ?case
    using abs by (simp add: kv uc_get_add_exponent uc_get_Cons uc_get_absent)
qed

lemma uc_get_div:
  "distinct (map fst d) \<Longrightarrow> uc_get (uc_div c d) k = uc_get c k - uc_get d k"
  unfolding uc_div_def
proof (induction d arbitrary: c)
  case Nil
  show ?case by (simp add: uc_get_def)
next
  case (Cons kv d)
  obtain k' v where kv: "kv = (k', v)" by (cases kv)
  from Cons.prems kv have abs: "k' \<notin> fst ` set d" and dist: "distinct (map fst d)" by auto
  have "uc_get (fold (\<lambda>kv. uc_add_exponent (fst kv, - snd kv)) d (uc_add_exponent (k', - v) c)) k
          = uc_get (uc_add_exponent (k', - v) c) k - uc_get d k"
    by (rule Cons.IH [OF dist])
  then show ?case
    using abs by (simp add: kv uc_get_add_exponent uc_get_Cons uc_get_absent)
qed

lemma map_of_uc_pow:
  "map_of (uc_pow c n) k = map_option (\<lambda>v. v * n) (map_of c k)"
  by (induction c) (auto simp: uc_pow_def)

section \<open>Evaluation in the example registry\<close>

lemma example_world_sel:
  "registries example_world r = example_registry"
  "quantity_to example_world = example_to"
  "quantity_eq example_world = (\<lambda>x q. Inr (x = q))"
  "container_eq example_world =
     (\<lambda>c x. case x of PContainer d \<Rightarrow> Inr (uc_eq c d) | _ \<Rightarrow> Inr False)"
  "left_mul example_world = (\<lambda>v w. Inr PNotImplemented)"
  "is_upcast_type example_world = (\<lambda>t. t = ''Series'')"
  "ufunc_call example_world = (\<lambda>name args kwargs. Inr (PTuple (args @ map snd kwargs)))"
  "extract_custom_flags example_world = (\<lambda>s. s)"
  "py_str example_world = type_name"
  by (simp_all add: example_world_def)

lemma example_registry_sel:
  "parse_units example_registry = (\<lambda>s. if s = [] then Inr [] else Inr [(s, 1)])"
  "get_dimensionality example_registry = example_get_dimensionality"
  "active_ctx example_registry = []"
  "fmt_locale example_registry = None"
  "get_symbol example_registry = (\<lambda>k. Inr (take 1 k))"
  "root_factor example_registry = (\<lambda>c. 1)"
  by (simp_all add: example_registry_def)

lemma example_dimension_values:
  "example_dimension ''meter'' = Inr [(''[length]'', 1)]"
  "example_dimension ''foot'' = Inr [(''[length]'', 1)]"
  "example_dimension ''second'' = Inr [(''[time]'', 1)]"
  "example_dimension ''radian'' = Inr []"
  by (simp_all add: example_dimension_def)

lemmas example_eval =
  example_world_sel example_registry_sel example_dimension_values reg_of_def bind_res_def
  uc_mul_def uc_pow_def uc_eq_def new_unit_def quantity_of_def

section \<open>Compatibility\<close>

lemma one_times_unit: "py_mul W (PNum 1) self = Inr (quantity_of self (PNum 1))"
  by (simp add: py_mul_def unit_rmul_def unit_mul_def check_def bind_res_def)

text \<open>
  C1. \<^verbatim>\<open>is_compatible_with\<close> decides in this order. With explicit contexts, or with a
  non-empty stack of active contexts in the registry, it converts the quantity of
  magnitude 1 over the container of \<open>self\<close> into \<open>other\<close>: the answer is \<open>True\<close> when the
  conversion returns, \<open>False\<close> when it raises a dimensionality error, and any other error
  is raised again. Otherwise, for a unit or a quantity the answer is the comparison of the
  two dimensionalities, for a string the comparison with the dimensionality of the unit
  the registry parses from it, and for every other operand, numbers included, it is
  \<^verbatim>\<open>self.dimensionless\<close>. Here \<open>dims R u\<close> is what the property \<^verbatim>\<open>dimensionality\<close> of \<open>u\<close>
  returns (the cached value, else the registry's reduction of the container), two
  containers are equal when they have the same items, and a unit is dimensionless when
  its dimensionality is empty.
\<close>

theorem is_compatible_with_tiers:
  "(let R = registries W (u_registry self);
        dims = (\<lambda>R' u. case u_dimensionality u of
                           Some d \<Rightarrow> Inr d
                         | None \<Rightarrow> get_dimensionality R' (u_units u))
    in
      (contexts \<noteq> [] \<or> active_ctx R \<noteq> [] \<longrightarrow>
         is_compatible_with W self other contexts ctx_kwargs =
           (case quantity_to W (PQuantity (u_registry self) (PNum 1) (u_units self))
                   other contexts ctx_kwargs of
              Inr r \<Rightarrow> Inr True
            | Inl (DimensionalityError m) \<Rightarrow> Inr False
            | Inl e \<Rightarrow> Inl e))
      \<and> (contexts = [] \<and> active_ctx R = [] \<longrightarrow>
           (\<forall>u. other = PUnit u \<longrightarrow>
              is_compatible_with W self other contexts ctx_kwargs =
                (case dims R self of
                   Inl e \<Rightarrow> Inl e
                 | Inr d1 \<Rightarrow>
                     (case dims (registries W (u_registry u)) u of
                        Inl e \<Rightarrow> Inl e
                      | Inr d2 \<Rightarrow> Inr (set d1 = set d2))))
         \<and> (\<forall>r m c. other = PQuantity r m c \<longrightarrow>
              is_compatible_with W self other contexts ctx_kwargs =
                (case dims R self of
                   Inl e \<Rightarrow> Inl e
                 | Inr d1 \<Rightarrow>
                     (case quantity_dimensionality W other of
                        Inl e \<Rightarrow> Inl e
                      | Inr d2 \<Rightarrow> Inr (set d1 = set d2))))
         \<and> (\<forall>s. other = PStr s \<longrightarrow>
              is_compatible_with W self other contexts ctx_kwargs =
                (case dims R self of
                   Inl e \<Rightarrow> Inl e
                 | Inr d1 \<Rightarrow>
                     (case parse_units R s of
                        Inl e \<Rightarrow> Inl e
                      | Inr c \<Rightarrow>
                          (case get_dimensionality R c of
                             Inl e \<Rightarrow> Inl e
                           | Inr d2 \<Rightarrow> Inr (set d1 = set d2)))))
         \<and> ((\<forall>u. other \<noteq> PUnit u) \<and> (\<forall>r m c. other \<noteq> PQuantity r m c)
              \<and> (\<forall>s. other \<noteq> PStr s) \<longrightarrow>
              is_compatible_with W self other contexts ctx_kwargs =
                (case dims R self of Inl e \<Rightarrow> Inl e | Inr d \<Rightarrow> Inr (d = [])))))"
  unfolding Let_def
  by (cases other)
     (auto simp: is_compatible_with_def one_times_unit quantity_of_def bind_res_def
        dimensionality_def dimensionless_def reg_of_def uc_eq_def new_unit_def
        split: option.splits sum.splits)

theorem is_compatible_with_tiers_witness:
  "is_compatible_with example_world meter (PUnit second) [''sp''] [] = Inr False
   \<and> is_compatible_with example_world meter (PUnit (new_unit 0 [(''foot'', 1)])) [''sp''] []
       = Inr True
   \<and> is_compatible_with example_world meter (PNum 2) [''sp''] [] = Inl (Raised ''unsupported'')
   \<and> is_compatible_with example_world meter (PUnit second) [] [] = Inr False
   \<and> is_compatible_with example_world cached_unit (PUnit meter) [] [] = Inr True
   \<and> is_compatible_with example_world meter (PQuantity 0 (PNum 5) [(''foot'', 1)]) [] []
       = Inr True
   \<and> is_compatible_with example_world meter (PStr ''foot'') [] [] = Inr True
   \<and> is_compatible_with example_world meter (PStr ''parsec'') [] []
       = Inl (Raised ''undefined unit'')
   \<and> is_compatible_with example_world meter (PNum 2) [] [] = Inr False
   \<and> is_compatible_with example_world (new_unit 0 []) (PNum 2) [] [] = Inr True"
proof -
  have qd: "quantity_dimensionality example_world (PQuantity 0 (PNum 5) [(''foot'', 1)])
              = Inr [(''[length]'', 1)]"
    by (simp add: example_world_def example_eval)
  have t1: "is_compatible_with example_world meter (PUnit second) [''sp''] [] = Inr False"
    using is_compatible_with_tiers [of example_world meter "[''sp'']" "PUnit second" "[]"]
    by (simp add: Let_def example_to_def meter_def second_def example_eval)
  have t2: "is_compatible_with example_world meter (PUnit (new_unit 0 [(''foot'', 1)]))
              [''sp''] [] = Inr True"
    using is_compatible_with_tiers [of example_world meter "[''sp'']"
        "PUnit (new_unit 0 [(''foot'', 1)])" "[]"]
    by (simp add: Let_def example_to_def meter_def example_eval)
  have t3: "is_compatible_with example_world meter (PNum 2) [''sp''] []
              = Inl (Raised ''unsupported'')"
    using is_compatible_with_tiers [of example_world meter "[''sp'']" "PNum 2" "[]"]
    by (simp add: Let_def example_to_def meter_def example_eval)
  have t4: "is_compatible_with example_world meter (PUnit second) [] [] = Inr False"
    using is_compatible_with_tiers [of example_world meter "[]" "PUnit second" "[]"]
    by (simp add: Let_def meter_def second_def example_eval)
  have t5: "is_compatible_with example_world cached_unit (PUnit meter) [] [] = Inr True"
    using is_compatible_with_tiers [of example_world cached_unit "[]" "PUnit meter" "[]"]
    by (simp add: Let_def meter_def cached_unit_def example_eval)
  have t6: "is_compatible_with example_world meter (PQuantity 0 (PNum 5) [(''foot'', 1)]) [] []
              = Inr True"
    using is_compatible_with_tiers [of example_world meter "[]"
        "PQuantity 0 (PNum 5) [(''foot'', 1)]" "[]"]
    by (simp add: Let_def qd meter_def example_eval)
  have t7: "is_compatible_with example_world meter (PStr ''foot'') [] [] = Inr True"
    using is_compatible_with_tiers [of example_world meter "[]" "PStr ''foot''" "[]"]
    by (simp add: Let_def meter_def example_eval)
  have und: "example_dimension ''parsec'' = Inl (Raised ''undefined unit'')"
    by (simp add: example_dimension_def)
  have t8: "is_compatible_with example_world meter (PStr ''parsec'') [] []
              = Inl (Raised ''undefined unit'')"
    using is_compatible_with_tiers [of example_world meter "[]" "PStr ''parsec''" "[]"]
    by (simp add: Let_def und meter_def example_eval)
  have t9: "is_compatible_with example_world meter (PNum 2) [] [] = Inr False"
    using is_compatible_with_tiers [of example_world meter "[]" "PNum 2" "[]"]
    by (simp add: Let_def meter_def example_eval)
  have t10: "is_compatible_with example_world (new_unit 0 []) (PNum 2) [] [] = Inr True"
    using is_compatible_with_tiers [of example_world "new_unit 0 []" "[]" "PNum 2" "[]"]
    by (simp add: Let_def example_eval)
  from t1 t2 t3 t4 t5 t6 t7 t8 t9 t10 show ?thesis by simp
qed

section \<open>Multiplication, division and powers\<close>

text \<open>
  C2. For units \<open>A\<close> and \<open>B\<close> of the same concrete class, \<open>A * B\<close> is a new unit of that
  class over the product of the two containers, in which the exponent of every name is
  the sum of its exponents in \<open>A\<close> and \<open>B\<close>; \<open>A / B\<close> is a new unit of that class over the
  quotient, in which it is the difference. The exponent of a name is its entry in the
  container, \<open>0\<close> when it has none. The container of \<open>B\<close> is a dictionary: its keys are
  distinct.
\<close>

theorem unit_mul_truediv_same_class:
  assumes "u_registry B = u_registry A" and "distinct (map fst (u_units B))"
  shows "(let exponent = (\<lambda>c k. case map_of c k of None \<Rightarrow> (0::rat) | Some v \<Rightarrow> v)
          in unit_mul W A (PUnit B)
               = Inr (PUnit \<lparr>u_registry = u_registry A,
                              u_units = uc_mul (u_units A) (u_units B),
                              u_used = False, u_dimensionality = None\<rparr>)
           \<and> (\<forall>k. exponent (uc_mul (u_units A) (u_units B)) k
                     = exponent (u_units A) k + exponent (u_units B) k)
           \<and> unit_truediv W A (PUnit B)
               = Inr (PUnit \<lparr>u_registry = u_registry A,
                              u_units = uc_div (u_units A) (u_units B),
                              u_used = False, u_dimensionality = None\<rparr>)
           \<and> (\<forall>k. exponent (uc_div (u_units A) (u_units B)) k
                     = exponent (u_units A) k - exponent (u_units B) k))"
  using assms uc_get_mul [of "u_units B" "u_units A"] uc_get_div [of "u_units B" "u_units A"]
  by (simp add: unit_mul_def unit_truediv_def check_def bind_res_def isinstance_class_of_def
      new_unit_def uc_get_def)

theorem unit_mul_truediv_same_class_witness:
  "unit_mul example_world meter (PUnit second)
     = Inr (PUnit \<lparr>u_registry = 0, u_units = [(''meter'', 1), (''second'', 1)],
                    u_used = False, u_dimensionality = None\<rparr>)
   \<and> unit_truediv example_world meter (PUnit second)
       = Inr (PUnit \<lparr>u_registry = 0, u_units = [(''meter'', 1), (''second'', -1)],
                      u_used = False, u_dimensionality = None\<rparr>)
   \<and> unit_mul example_world meter (PUnit meter)
       = Inr (PUnit \<lparr>u_registry = 0, u_units = [(''meter'', 2)],
                      u_used = False, u_dimensionality = None\<rparr>)
   \<and> unit_truediv example_world meter (PUnit meter)
       = Inr (PUnit \<lparr>u_registry = 0, u_units = [],
                      u_used = False, u_dimensionality = None\<rparr>)
   \<and> map_of (uc_mul [(''meter'', 1)] [(''second'', 1)]) ''second'' = Some 1
   \<and> map_of (uc_div [(''meter'', 1)] [(''second'', 1)]) ''second'' = Some (- 1)
   \<and> map_of (uc_div [(''meter'', 1)] [(''meter'', 1)]) ''meter'' = None"
proof -
  have h1: "u_registry second = u_registry meter" "distinct (map fst (u_units second))"
    by (simp_all add: meter_def second_def new_unit_def)
  have h2: "u_registry meter = u_registry meter" "distinct (map fst (u_units meter))"
    by (simp_all add: meter_def new_unit_def)
  have e: "uc_mul [(''meter'', 1)] [(''second'', 1)] = [(''meter'', 1), (''second'', 1)]"
    "uc_div [(''meter'', 1)] [(''second'', 1)] = [(''meter'', 1), (''second'', -1)]"
    "uc_mul [(''meter'', 1)] [(''meter'', 1)] = [(''meter'', 2)]"
    "uc_div [(''meter'', 1)] [(''meter'', 1)] = []"
    by (simp_all add: uc_mul_def uc_div_def uc_add_exponent_def uc_get_def Let_def)
  show ?thesis
    using unit_mul_truediv_same_class [OF h1, of example_world]
      unit_mul_truediv_same_class [OF h2, of example_world]
    by (simp add: Let_def e meter_def second_def new_unit_def)
qed

text \<open>
  C3. For a numeric exponent \<open>n\<close>, \<open>A ** n\<close> is a new unit of the class of \<open>A\<close> over the
  container of \<open>A\<close> with the same names and every exponent multiplied by \<open>n\<close>. For an
  exponent that is not a number, \<open>A ** x\<close> raises a \<^verbatim>\<open>TypeError\<close> whose message ends in the
  name of the type of \<open>x\<close>, whatever value of the model \<open>x\<close> is.
\<close>

theorem unit_pow_numeric_or_TypeError:
  "unit_pow A (PNum n)
     = Inr \<lparr>u_registry = u_registry A, u_units = uc_pow (u_units A) n,
            u_used = False, u_dimensionality = None\<rparr>
   \<and> (\<forall>k. map_of (uc_pow (u_units A) n) k = map_option (\<lambda>v. v * n) (map_of (u_units A) k))
   \<and> unit_pow A PNone = Inl (TypeError ''Cannot power Unit by NoneType'')
   \<and> unit_pow A (PStr s) = Inl (TypeError ''Cannot power Unit by str'')
   \<and> unit_pow A (PTuple xs) = Inl (TypeError ''Cannot power Unit by tuple'')
   \<and> unit_pow A (PContainer c) = Inl (TypeError ''Cannot power Unit by UnitsContainer'')
   \<and> unit_pow A (PUnit u) = Inl (TypeError ''Cannot power Unit by Unit'')
   \<and> unit_pow A (PQuantity r m c) = Inl (TypeError ''Cannot power Unit by Quantity'')
   \<and> unit_pow A (PForeign t h) = Inl (TypeError (''Cannot power Unit by '' @ t))
   \<and> unit_pow A PNotImplemented = Inl (TypeError ''Cannot power Unit by NotImplementedType'')
   \<and> ((\<forall>n. x \<noteq> PNum n) \<longrightarrow> (\<exists>msg. unit_pow A x = Inl (TypeError msg)))"
  by (cases x) (simp_all add: unit_pow_def new_unit_def map_of_uc_pow)

theorem unit_pow_numeric_or_TypeError_witness:
  "unit_pow meter (PNum 2)
     = Inr \<lparr>u_registry = 0, u_units = [(''meter'', 2)], u_used = False,
            u_dimensionality = None\<rparr>
   \<and> map_of (uc_pow (u_units meter) 2) ''meter'' = Some 2
   \<and> map_of (uc_pow (u_units meter) 2) ''second'' = None
   \<and> unit_pow meter (PStr ''x'') = Inl (TypeError ''Cannot power Unit by str'')
   \<and> unit_pow meter PNone = Inl (TypeError ''Cannot power Unit by NoneType'')
   \<and> unit_pow meter (PForeign ''ndarray'' True) = Inl (TypeError ''Cannot power Unit by ndarray'')
   \<and> (\<exists>msg. unit_pow meter (PTuple []) = Inl (TypeError msg))"
  using unit_pow_numeric_or_TypeError [where A = meter and n = 2 and s = "''x''"
      and t = "''ndarray''" and h = True and x = "PTuple []"]
  by (simp add: meter_def new_unit_def uc_pow_def)

section \<open>Localized formatting without a locale\<close>

lemma symbol_items_all_found:
  "\<forall>kv \<in> set c. \<exists>s. get_symbol R (fst kv) = Inr s \<Longrightarrow> \<exists>items. symbol_items R c = Inr items"
  by (induction c) (auto simp: bind_res_def)

lemma symbol_items_first_failure:
  "\<forall>kv \<in> set pre. \<exists>s. get_symbol R (fst kv) = Inr s \<Longrightarrow> get_symbol R (fst kv) = Inl e \<Longrightarrow>
     symbol_items R (pre @ kv # post) = Inl e"
  by (induction pre) (auto simp: bind_res_def)

text \<open>
  C4, as the code has it. When neither the caller nor the registry gives a locale,
  \<^verbatim>\<open>format_babel\<close> renders nothing, and what it does is this. Without the short-form flag
  \<^verbatim>\<open>~\<close> in the spec it raises the missing-locale error. With the flag, an error of the
  dimensionality lookup is raised again; a dimensionless unit returns the empty string,
  before the locale is looked at; for a unit that is not dimensionless the first symbol
  lookup that fails raises its error, and when every symbol is found the missing-locale
  error is raised. So the only string it can return is the empty string.
\<close>

theorem format_babel_without_locale:
  assumes "fmt_locale (registries W (u_registry self)) = None"
  shows "(let R = registries W (u_registry self);
              spec1 = (if spec \<noteq> [] then spec else extract_custom_flags W []);
              dims = (case u_dimensionality self of
                        Some d \<Rightarrow> Inr d
                      | None \<Rightarrow> get_dimensionality R (u_units self));
              no_locale = Inl (ValueError ''Provide a `locale` value to localize translation.'')
          in (CHR ''~'' \<notin> set spec1 \<longrightarrow>
                format_babel W self spec None kwspec = no_locale)
           \<and> (\<forall>e. CHR ''~'' \<in> set spec1 \<and> dims = Inl e \<longrightarrow>
                format_babel W self spec None kwspec = Inl e)
           \<and> (CHR ''~'' \<in> set spec1 \<and> dims = Inr [] \<longrightarrow>
                format_babel W self spec None kwspec = Inr [])
           \<and> (\<forall>d pre kv post e.
                CHR ''~'' \<in> set spec1 \<and> dims = Inr d \<and> d \<noteq> []
                \<and> u_units self = pre @ kv # post
                \<and> (\<forall>x \<in> set pre. \<exists>s. get_symbol R (fst x) = Inr s)
                \<and> get_symbol R (fst kv) = Inl e \<longrightarrow>
                format_babel W self spec None kwspec = Inl e)
           \<and> (\<forall>d. CHR ''~'' \<in> set spec1 \<and> dims = Inr d \<and> d \<noteq> []
                \<and> (\<forall>x \<in> set (u_units self). \<exists>s. get_symbol R (fst x) = Inr s) \<longrightarrow>
                format_babel W self spec None kwspec = no_locale)
           \<and> (\<forall>s. format_babel W self spec None kwspec = Inr s \<longrightarrow> s = []))"
proof -
  let ?R = "registries W (u_registry self)"
  let ?spec1 = "if spec \<noteq> [] then spec else extract_custom_flags W []"
  let ?dims = "case u_dimensionality self of
                 Some d \<Rightarrow> Inr d | None \<Rightarrow> get_dimensionality ?R (u_units self)"
  let ?no = "Inl (ValueError ''Provide a `locale` value to localize translation.'')
               :: error + string"
  let ?res = "format_babel W self spec None kwspec"
  have dl: "fst (dimensionless ?R self) = (case ?dims of Inl e \<Rightarrow> Inl e | Inr d \<Rightarrow> Inr (d = []))"
    by (simp add: dimensionless_def dimensionality_def split: option.splits sum.splits)
  have noflag: "CHR ''~'' \<notin> set ?spec1 \<Longrightarrow> ?res = ?no"
    using assms
    by (cases "spec = []")
       (simp_all add: format_babel_def Let_def reg_of_def default_format_def missing_locale_def)
  have flag: "CHR ''~'' \<in> set ?spec1 \<Longrightarrow>
      ?res = (case ?dims of
                Inl e \<Rightarrow> Inl e
              | Inr d \<Rightarrow>
                  if d = [] then Inr []
                  else (case symbol_items ?R (u_units self) of
                          Inl e \<Rightarrow> Inl e
                        | Inr items \<Rightarrow> ?no))"
    using assms
    by (cases "spec = []")
       (simp_all add: format_babel_def Let_def reg_of_def default_format_def missing_locale_def
          dl bind_res_def split: sum.splits)
  have a: "CHR ''~'' \<notin> set ?spec1 \<longrightarrow> ?res = ?no"
    using noflag by blast
  have b: "\<forall>e. CHR ''~'' \<in> set ?spec1 \<and> ?dims = Inl e \<longrightarrow> ?res = Inl e"
    using flag by simp
  have c: "CHR ''~'' \<in> set ?spec1 \<and> ?dims = Inr [] \<longrightarrow> ?res = Inr []"
    using flag by simp
  have d: "\<forall>d pre kv post e.
             CHR ''~'' \<in> set ?spec1 \<and> ?dims = Inr d \<and> d \<noteq> []
             \<and> u_units self = pre @ kv # post
             \<and> (\<forall>x \<in> set pre. \<exists>s. get_symbol ?R (fst x) = Inr s)
             \<and> get_symbol ?R (fst kv) = Inl e \<longrightarrow> ?res = Inl e"
    using flag symbol_items_first_failure [of _ ?R] by simp
  have e: "\<forall>d. CHR ''~'' \<in> set ?spec1 \<and> ?dims = Inr d \<and> d \<noteq> []
             \<and> (\<forall>x \<in> set (u_units self). \<exists>s. get_symbol ?R (fst x) = Inr s) \<longrightarrow> ?res = ?no"
  proof (intro allI impI)
    fix d
    assume h: "CHR ''~'' \<in> set ?spec1 \<and> ?dims = Inr d \<and> d \<noteq> []
             \<and> (\<forall>x \<in> set (u_units self). \<exists>s. get_symbol ?R (fst x) = Inr s)"
    then obtain items where "symbol_items ?R (u_units self) = Inr items"
      using symbol_items_all_found [of "u_units self" ?R] by blast
    with h flag show "?res = ?no" by simp
  qed
  have f: "\<forall>s. ?res = Inr s \<longrightarrow> s = []"
  proof (cases "CHR ''~'' \<in> set ?spec1")
    case True
    then show ?thesis
      using flag by (auto split: sum.splits if_splits)
  next
    case False
    then show ?thesis
      using noflag by simp
  qed
  from a b c d e f show ?thesis
    unfolding Let_def by blast
qed

theorem format_babel_without_locale_witness:
  "format_babel example_world meter ''P'' None []
     = Inl (ValueError ''Provide a `locale` value to localize translation.'')
   \<and> format_babel example_world (new_unit 0 []) ''~'' None [] = Inr []
   \<and> format_babel example_world radian ''~P'' None [] = Inr []
   \<and> format_babel example_world meter ''~P'' None []
       = Inl (ValueError ''Provide a `locale` value to localize translation.'')
   \<and> format_babel example_world (new_unit 0 [(''parsec'', 1)]) ''~'' None []
       = Inl (Raised ''undefined unit'')
   \<and> format_babel symbolless_world meter ''~'' None [] = Inl (Raised ''no symbol'')"
proof -
  have h: "\<And>u. fmt_locale (registries example_world (u_registry u)) = None"
    by (simp add: example_eval)
  have h': "\<And>u. fmt_locale (registries symbolless_world (u_registry u)) = None"
    by (simp add: symbolless_world_def example_eval)
  have und: "example_dimension ''parsec'' = Inl (Raised ''undefined unit'')"
    by (simp add: example_dimension_def)
  have t1: "format_babel example_world meter ''P'' None []
              = Inl (ValueError ''Provide a `locale` value to localize translation.'')"
    using format_babel_without_locale [OF h, of meter "''P''" "[]"]
    by (simp add: Let_def)
  have t2: "format_babel example_world (new_unit 0 []) ''~'' None [] = Inr []"
    using format_babel_without_locale [OF h, of "new_unit 0 []" "''~''" "[]"]
    by (simp add: Let_def example_eval)
  have t3: "format_babel example_world radian ''~P'' None [] = Inr []"
    using format_babel_without_locale [OF h, of radian "''~P''" "[]"]
    by (simp add: Let_def radian_def example_eval)
  have t4: "format_babel example_world meter ''~P'' None []
              = Inl (ValueError ''Provide a `locale` value to localize translation.'')"
    using format_babel_without_locale [OF h, of meter "''~P''" "[]"]
    by (simp add: Let_def meter_def example_eval)
  have t5: "format_babel example_world (new_unit 0 [(''parsec'', 1)]) ''~'' None []
              = Inl (Raised ''undefined unit'')"
    using format_babel_without_locale [OF h, of "new_unit 0 [(''parsec'', 1)]" "''~''" "[]"]
    by (simp add: Let_def und example_eval)
  note T = format_babel_without_locale [OF h', of meter "''~''" "[]", unfolded Let_def]
  have t6: "format_babel symbolless_world meter ''~'' None [] = Inl (Raised ''no symbol'')"
    using T [THEN conjunct2, THEN conjunct2, THEN conjunct2, THEN conjunct1, rule_format,
        of "[(''[length]'', 1)]" "[]" "(''meter'', 1)" "[]" "Raised ''no symbol''"]
    by (simp add: symbolless_world_def meter_def example_eval)
  from t1 t2 t3 t4 t5 t6 show ?thesis by simp
qed

text \<open>
  The short form of a dimensionless unit, formatted with no locale at all, returns the
  empty string and raises nothing.
\<close>

theorem format_babel_short_dimensionless_no_locale:
  "fmt_locale (reg_of example_world (new_unit 0 [])) = None
   \<and> format_babel example_world (new_unit 0 []) ''~'' None [] = Inr []"
  by (simp add: format_babel_def Let_def dimensionless_def dimensionality_def example_eval)

section \<open>The cached dimensionality\<close>







section \<open>Conversion helpers\<close>

text \<open>
  C6. In strict mode \<^verbatim>\<open>from_\<close> is to raise a \<^verbatim>\<open>ValueError\<close> naming the value for every value
  that is not quantity-like. For the pair \<^verbatim>\<open>(1, 2)\<close> the construction of the message
  itself raises: the result is a \<^verbatim>\<open>TypeError\<close>.
\<close>

theorem unit_from_strict_tuple:
  "unit_from W self (PTuple [PNum 1, PNum 2]) True name
     = Inl (TypeError ''not all arguments converted during string formatting'')"
  by (simp add: unit_from_def check_def bind_res_def must_be_quantity_message_def)

text \<open>
  The other branches of \<^verbatim>\<open>from_\<close> and \<^verbatim>\<open>m_from\<close>: a quantity-like value is converted
  to the unit, a value that is neither quantity-like nor a tuple raises the
  \<^verbatim>\<open>ValueError\<close> in strict mode, a value that is not quantity-like is multiplied with the
  unit otherwise, and \<^verbatim>\<open>m_from\<close> takes the magnitude of what \<^verbatim>\<open>from_\<close> returns.
\<close>

lemma unit_from_quantity_like:
  "check self v = Inr True \<Longrightarrow>
     unit_from W self v strict name
       = quantity_to W (unit_quantity_of_value self v) (PUnit self) [] []"
  by (simp add: unit_from_def bind_res_def)

lemma unit_from_strict_not_tuple:
  "check self v = Inr False \<Longrightarrow> \<forall>xs. v \<noteq> PTuple xs \<Longrightarrow>
     unit_from W self v True name = Inl (ValueError (py_str W v @ '' must be a Quantity''))"
  by (cases v) (simp_all add: unit_from_def bind_res_def must_be_quantity_message_def)

lemma unit_from_not_strict:
  "check self v = Inr False \<Longrightarrow> unit_from W self v False name = py_mul W v self"
  by (simp add: unit_from_def bind_res_def)

lemma m_from_magnitude:
  "m_from W self v strict name = bind_res (unit_from W self v strict name) magnitude_of"
  by (simp add: m_from_def)

section \<open>Interception of elementwise array operations\<close>





section \<open>Equality\<close>

text \<open>
  C8. For a plain number \<open>n\<close>, \<open>self == n\<close> is the comparison of \<open>n\<close> with the quantity of
  magnitude 1 of \<open>self\<close>. Hence \<^verbatim>\<open>Unit('') == 1\<close> is true in a registry that parses the
  empty string to the empty container, reduces it to the empty dimensionality and gives
  it the value 1, and \<^verbatim>\<open>Unit(s) == 1\<close> is false for a string such as \<^verbatim>\<open>'meter'\<close> whose unit
  has a non-empty dimensionality. For an operand that is neither quantity-like nor a
  number, \<open>self == other\<close> compares the container of \<open>self\<close> with \<open>other\<close>. Inequality is
  the negation of equality.
\<close>

theorem unit_eq_semantics:
  "unit_eq W self (PNum n) = quantity_eq_number (reg_of W self) 1 (u_units self) n
   \<and> (parse_units (registries W r) [] = Inr []
        \<and> get_dimensionality (registries W r) [] = Inr []
        \<and> root_factor (registries W r) [] = 1 \<longrightarrow>
        (\<exists>u. unit_init W r (PStr []) = Inr u \<and> unit_eq W u (PNum 1) = Inr True))
   \<and> (parse_units (registries W r) s = Inr c
        \<and> get_dimensionality (registries W r) c = Inr d \<and> d \<noteq> [] \<longrightarrow>
        (\<exists>u. unit_init W r (PStr s) = Inr u \<and> unit_eq W u (PNum 1) = Inr False))
   \<and> (check self other = Inr False \<and> \<not> is_number other \<longrightarrow>
        unit_eq W self other = container_eq W (u_units self) other)
   \<and> (\<forall>b. unit_eq W self other = Inr b \<longrightarrow> unit_ne W self other = Inr (\<not> b))
   \<and> (\<forall>e. unit_eq W self other = Inl e \<longrightarrow> unit_ne W self other = Inl e)"
  by (cases other)
     (auto simp: unit_eq_def unit_ne_def check_def bind_res_def quantity_eq_number_def
       unit_init_def new_unit_def reg_of_def is_number_def)

theorem unit_eq_semantics_witness:
  "unit_eq example_world meter (PNum 1) = Inr False
   \<and> (\<exists>u. unit_init example_world 0 (PStr []) = Inr u \<and> unit_eq example_world u (PNum 1) = Inr True)
   \<and> (\<exists>u. unit_init example_world 0 (PStr ''meter'') = Inr u
          \<and> unit_eq example_world u (PNum 1) = Inr False)
   \<and> unit_eq example_world meter (PContainer [(''meter'', 1)]) = Inr True
   \<and> unit_ne example_world meter (PContainer [(''meter'', 1)]) = Inr False"
proof -
  have q: "quantity_eq_number (reg_of example_world meter) 1 (u_units meter) 1 = Inr False"
    by (simp add: quantity_eq_number_def meter_def example_eval)
  have c: "check meter (PContainer [(''meter'', 1)]) = Inr False"
    by (simp add: check_def)
  have ce: "container_eq example_world (u_units meter) (PContainer [(''meter'', 1)]) = Inr True"
    by (simp add: meter_def example_eval)
  have g: "get_dimensionality (registries example_world 0) [(''meter'', 1)]
             = Inr [(''[length]'', 1)]"
    by (simp add: example_eval)
  show ?thesis
    using unit_eq_semantics [of example_world meter 1 0 "''meter''" "[(''meter'', 1)]"
        "[(''[length]'', 1)]" "PContainer [(''meter'', 1)]"] q c ce g
    by (simp add: is_number_def example_eval)
qed

section \<open>Dimensionless units\<close>

text \<open>
  C9, as the code has it. \<^verbatim>\<open>Unit(C)\<close> is the unit with container \<open>C\<close>. In a registry
  that reduces the empty container to the empty dimensionality, \<^verbatim>\<open>Unit(C).dimensionless\<close>
  is \<open>True\<close> when \<open>C\<close> is empty. The converse fails: the property is \<open>True\<close> exactly when
  the registry reduces \<open>C\<close> to the empty dimensionality, and \<open>False\<close> exactly when it
  reduces \<open>C\<close> to a non-empty one. For any unit, new or not, \<^verbatim>\<open>dimensionless\<close> says
  whether the dimensionality the property returns is empty.
\<close>

theorem dimensionless_iff_dimensionality_empty:
  assumes "get_dimensionality (registries W r) [] = Inr []"
  shows "unit_init W r (PContainer C)
           = Inr \<lparr>u_registry = r, u_units = C, u_used = False, u_dimensionality = None\<rparr>
       \<and> (C = [] \<longrightarrow>
            fst (dimensionless (registries W r)
                   \<lparr>u_registry = r, u_units = C, u_used = False, u_dimensionality = None\<rparr>)
              = Inr True)
       \<and> (fst (dimensionless (registries W r)
                  \<lparr>u_registry = r, u_units = C, u_used = False, u_dimensionality = None\<rparr>)
             = Inr True
            \<longleftrightarrow> get_dimensionality (registries W r) C = Inr [])
       \<and> (fst (dimensionless (registries W r)
                  \<lparr>u_registry = r, u_units = C, u_used = False, u_dimensionality = None\<rparr>)
             = Inr False
            \<longleftrightarrow> (\<exists>d. get_dimensionality (registries W r) C = Inr d \<and> d \<noteq> []))
       \<and> fst (dimensionless R self)
           = (case (case u_dimensionality self of
                      Some d \<Rightarrow> Inr d
                    | None \<Rightarrow> get_dimensionality R (u_units self)) of
                Inl e \<Rightarrow> Inl e
              | Inr d \<Rightarrow> Inr (d = []))"
  using assms
  by (auto simp: unit_init_def dimensionless_def dimensionality_def new_unit_def
      split: sum.splits option.splits)

theorem dimensionless_iff_dimensionality_empty_witness:
  "get_dimensionality (registries example_world 0) [] = Inr []
   \<and> unit_init example_world 0 (PContainer [])
       = Inr \<lparr>u_registry = 0, u_units = [], u_used = False, u_dimensionality = None\<rparr>
   \<and> fst (dimensionless (registries example_world 0)
            \<lparr>u_registry = 0, u_units = [], u_used = False, u_dimensionality = None\<rparr>)
       = Inr True
   \<and> fst (dimensionless (registries example_world 0)
            \<lparr>u_registry = 0, u_units = [(''radian'', 1)], u_used = False,
             u_dimensionality = None\<rparr>)
       = Inr True
   \<and> fst (dimensionless (registries example_world 0)
            \<lparr>u_registry = 0, u_units = [(''meter'', 1)], u_used = False,
             u_dimensionality = None\<rparr>)
       = Inr False
   \<and> fst (dimensionless example_registry cached_unit) = Inr False"
proof -
  have h: "get_dimensionality (registries example_world 0) [] = Inr []"
    by (simp add: example_eval)
  show ?thesis
    using h dimensionless_iff_dimensionality_empty [OF h, of "[]"]
      dimensionless_iff_dimensionality_empty [OF h, of "[(''radian'', 1)]"]
      dimensionless_iff_dimensionality_empty [OF h, of "[(''meter'', 1)]" example_registry
        cached_unit]
    by (simp add: cached_unit_def example_eval)
qed

text \<open>
  The unit radian has a non-empty container and is dimensionless.
\<close>

theorem dimensionless_nonempty_container:
  "unit_init example_world 0 (PContainer [(''radian'', 1)]) = Inr radian
   \<and> u_units radian \<noteq> []
   \<and> fst (dimensionless (reg_of example_world radian) radian) = Inr True"
  by (simp add: unit_init_def dimensionless_def dimensionality_def radian_def example_eval)

section \<open>Reflected multiplication\<close>

text \<open>
  C10. The reflected multiplication of a unit is its multiplication: for every unit
  \<open>u\<close> and operand \<open>x\<close>, the handler called for \<open>x * u\<close> returns what \<open>u * x\<close> returns.
\<close>

theorem unit_rmul_is_unit_mul: "unit_rmul W u x = unit_mul W u x"
  by (simp add: unit_rmul_def)

theorem unit_rmul_is_unit_mul_witness:
  "unit_rmul example_world meter (PNum 1) = Inr (PQuantity 0 (PNum 1) [(''meter'', 1)])"
  using unit_rmul_is_unit_mul [of example_world meter "PNum 1"]
  by (simp add: unit_mul_def check_def meter_def example_eval)

end
